theory Spec2Isabelle
  imports Complex_Main
begin


section \<open>The portfolio analysis request: HTTP route\<close>

text \<open>
  The route \<^verbatim>\<open>router.post('/portfolio/analyze')\<close> of
  \<^verbatim>\<open>backend/src/routes/crypto.routes.ts\<close> reads a parsed JSON body, validates it,
  converts the percentage allocations to fractions and hands the portfolio to
  \<^verbatim>\<open>analyzePortfolio\<close> of the crypto service. The service is a parameter of the model.

  JavaScript numbers are modelled as reals: rounding of doubles is not modelled, and a
  parsed JSON body holds no NaN (a literal too large for a double, which is read as an
  infinity, is left out).
\<close>

subsection \<open>Parsed JSON values\<close>

datatype jsval =
    JUndefined
  | JNull
  | JBool bool
  | JNum real
  | JStr string
  | JArr "jsval list"
  | JObj "(string \<times> jsval) list"

text \<open>
  Property access \<^verbatim>\<open>v.k\<close> for the names the route reads (\<^verbatim>\<open>assets\<close>, \<^verbatim>\<open>days\<close>,
  \<^verbatim>\<open>id\<close>, \<^verbatim>\<open>allocation\<close>; none of them is an array index or a prototype member).
  \<open>None\<close> is the TypeError that JavaScript throws on \<^verbatim>\<open>null\<close> and \<^verbatim>\<open>undefined\<close>;
  an absent property reads as \<^verbatim>\<open>undefined\<close>. An object is the list of its own
  properties; a lookup takes the first binding of a name.
\<close>

fun get_prop :: "jsval \<Rightarrow> string \<Rightarrow> jsval option" where
  "get_prop JUndefined k = None"
| "get_prop JNull k = None"
| "get_prop (JObj kvs) k = Some (case map_of kvs k of None \<Rightarrow> JUndefined | Some v \<Rightarrow> v)"
| "get_prop (JArr xs) k = Some (if k = ''length'' then JNum (real (length xs)) else JUndefined)"
| "get_prop (JStr s) k = Some (if k = ''length'' then JNum (real (length s)) else JUndefined)"
| "get_prop (JBool b) k = Some JUndefined"
| "get_prop (JNum x) k = Some JUndefined"

text \<open>Truthiness, as \<^verbatim>\<open>!v\<close> tests it.\<close>

fun truthy :: "jsval \<Rightarrow> bool" where
  "truthy JUndefined = False"
| "truthy JNull = False"
| "truthy (JBool b) = b"
| "truthy (JNum x) = (x \<noteq> 0)"
| "truthy (JStr s) = (s \<noteq> [])"
| "truthy (JArr xs) = True"
| "truthy (JObj kvs) = True"

text \<open>\<^verbatim>\<open>typeof v === 'number'\<close>.\<close>

fun is_number :: "jsval \<Rightarrow> bool" where
  "is_number (JNum x) = True"
| "is_number v = False"

subsection \<open>Responses\<close>

text \<open>
  \<^verbatim>\<open>res.status(s).json({success, data, error})\<close>: the status and the fields of
  \<^verbatim>\<open>ApiResponse\<close> the route sets.
\<close>

datatype 'a http_response =
  HttpResponse (status: nat) (success: bool) (data: "'a option") (error_text: "string option")

definition too_few_assets :: "'a http_response" where
  "too_few_assets = HttpResponse 400 False None (Some ''Portfolio must contain at least 2 assets'')"

definition malformed_asset :: "'a http_response" where
  "malformed_asset = HttpResponse 400 False None (Some ''Each asset must have id and allocation'')"

definition analysis_failed :: "'a http_response" where
  "analysis_failed = HttpResponse 500 False None (Some ''Failed to analyze portfolio'')"

subsection \<open>The handler\<close>

text \<open>The objects \<^verbatim>\<open>{id, allocation}\<close> passed to the service.\<close>

record engine_asset =
  ea_id :: jsval
  ea_allocation :: real

text \<open>
  \<^verbatim>\<open>const { assets, days = 30 } = req.body\<close>: the default applies to an absent
  (\<^verbatim>\<open>undefined\<close>) \<^verbatim>\<open>days\<close> only. \<open>None\<close>: destructuring \<^verbatim>\<open>null\<close> or
  \<^verbatim>\<open>undefined\<close> throws.
\<close>

definition read_body :: "jsval \<Rightarrow> (jsval \<times> jsval) option" where
  "read_body body =
     (case get_prop body ''assets'' of
        None \<Rightarrow> None
      | Some assets \<Rightarrow>
          (case get_prop body ''days'' of
             None \<Rightarrow> None
           | Some d \<Rightarrow> Some (assets, if d = JUndefined then JNum 30 else d)))"

text \<open>
  The loop \<^verbatim>\<open>for (const asset of assets)\<close> with its test
  \<^verbatim>\<open>!asset.id || typeof asset.allocation !== 'number'\<close>. It stops at the first asset that
  fails the test (\<open>Malformed\<close>) or on which the property access throws (\<open>Threw\<close>).
\<close>

datatype loop_outcome = Passed | Malformed | Threw

fun validate_assets :: "jsval list \<Rightarrow> loop_outcome" where
  "validate_assets [] = Passed"
| "validate_assets (asset # rest) =
     (case get_prop asset ''id'' of
        None \<Rightarrow> Threw
      | Some i \<Rightarrow>
          if \<not> truthy i then Malformed
          else (case get_prop asset ''allocation'' of
                  None \<Rightarrow> Threw
                | Some a \<Rightarrow> if \<not> is_number a then Malformed else validate_assets rest))"

text \<open>
  The callback of \<^verbatim>\<open>assets.map\<close>: \<^verbatim>\<open>{ id: asset.id, allocation: asset.allocation / 100 }\<close>.
  \<open>None\<close> stands for an asset whose allocation is not a number; the loop above has returned
  for every such asset, so the map never meets one (lemma \<open>convert_after_validation\<close>).
\<close>

fun convert_asset :: "jsval \<Rightarrow> engine_asset option" where
  "convert_asset asset =
     (case get_prop asset ''id'' of
        None \<Rightarrow> None
      | Some i \<Rightarrow>
          (case get_prop asset ''allocation'' of
             Some (JNum a) \<Rightarrow> Some \<lparr>ea_id = i, ea_allocation = a / 100\<rparr>
           | _ \<Rightarrow> None))"

fun convert_assets :: "jsval list \<Rightarrow> engine_asset list option" where
  "convert_assets [] = Some []"
| "convert_assets (asset # rest) =
     (case convert_asset asset of
        None \<Rightarrow> None
      | Some e \<Rightarrow> (case convert_assets rest of None \<Rightarrow> None | Some es \<Rightarrow> Some (e # es)))"

text \<open>
  What the handler does before it awaits the service: it answers at once, or it calls the
  service with the converted portfolio and \<^verbatim>\<open>days\<close>.
\<close>

datatype 'a handler_step =
    Respond "'a http_response"
  | CallEngine "engine_asset list" jsval

definition route_validate :: "jsval \<Rightarrow> 'a handler_step" where
  "route_validate body =
     (case read_body body of
        None \<Rightarrow> Respond analysis_failed
      | Some (assets, days) \<Rightarrow>
          (case assets of
             JArr xs \<Rightarrow>
               if length xs < 2 then Respond too_few_assets
               else (case validate_assets xs of
                       Threw \<Rightarrow> Respond analysis_failed
                     | Malformed \<Rightarrow> Respond malformed_asset
                     | Passed \<Rightarrow>
                         (case convert_assets xs of
                            None \<Rightarrow> Respond analysis_failed
                          | Some portfolioAssets \<Rightarrow> CallEngine portfolioAssets days))
           | _ \<Rightarrow> Respond too_few_assets))"

text \<open>
  The whole handler. The service \<open>analyzePortfolio\<close> is a parameter; \<open>None\<close> is a rejected
  promise or an exception, which the \<^verbatim>\<open>catch\<close> block turns into status 500.
\<close>

definition portfolio_analyze_route ::
  "(engine_asset list \<Rightarrow> jsval \<Rightarrow> 'a option) \<Rightarrow> jsval \<Rightarrow> 'a http_response" where
  "portfolio_analyze_route analyzePortfolio body =
     (case route_validate body of
        Respond r \<Rightarrow> r
      | CallEngine portfolioAssets days \<Rightarrow>
          (case analyzePortfolio portfolioAssets days of
             None \<Rightarrow> analysis_failed
           | Some analysis \<Rightarrow> HttpResponse 200 True (Some analysis) None))"

text \<open>What the request says about one asset.\<close>

definition has_id :: "jsval \<Rightarrow> bool" where
  "has_id asset = (case get_prop asset ''id'' of Some i \<Rightarrow> truthy i | None \<Rightarrow> False)"

definition numeric_allocation :: "jsval \<Rightarrow> real option" where
  "numeric_allocation asset =
     (case get_prop asset ''allocation'' of Some (JNum a) \<Rightarrow> Some a | _ \<Rightarrow> None)"

section \<open>The portfolio analyzer component\<close>

text \<open>
  The React component \<^verbatim>\<open>PortfolioAnalyzer\<close> holds the portfolio being built, with
  allocations in percent. Its state hooks are the fields of a record; a handler is a
  function of the state.
\<close>

record PortfolioAsset =
  pa_id :: string
  pa_symbol :: string
  pa_name :: string
  pa_allocation :: real
  pa_currentPrice :: "real option"

record SearchResult =
  sr_id :: string
  sr_name :: string
  sr_symbol :: string
  sr_slug :: string
  sr_rank :: real

record analyzer_state =
  portfolio :: "PortfolioAsset list"
  isAnalyzing :: bool
  error :: "string option"
  searchQuery :: string
  searchResults :: "SearchResult list"
  showSearch :: bool

definition initial_state :: analyzer_state where
  "initial_state =
     \<lparr>portfolio = [], isAnalyzing = False, error = None, searchQuery = [],
      searchResults = [], showSearch = False\<rparr>"

text \<open>\<^verbatim>\<open>portfolio.reduce((sum, asset) => sum + asset.allocation, 0)\<close>\<close>

definition getTotalAllocation :: "analyzer_state \<Rightarrow> real" where
  "getTotalAllocation st = foldl (\<lambda>sum asset. sum + pa_allocation asset) 0 (portfolio st)"

text \<open>
  \<^verbatim>\<open>cryptoApi.analyzePortfolio(assets, days)\<close> of \<^verbatim>\<open>api.service.ts\<close> posts
  \<^verbatim>\<open>{ assets, days }\<close> to \<^verbatim>\<open>/crypto/portfolio/analyze\<close>; this is the body the route
  receives.
\<close>

definition request_body :: "(string \<times> real) list \<Rightarrow> real \<Rightarrow> jsval" where
  "request_body assets days =
     JObj [(''assets'',
            JArr (map (\<lambda>(i, a). JObj [(''id'', JStr i), (''allocation'', JNum a)]) assets)),
           (''days'', JNum days)]"

text \<open>
  \<^verbatim>\<open>analyzePortfolio\<close> of the component, up to the request it sends: the two checks, each
  of which sets the error message and returns, then \<^verbatim>\<open>setIsAnalyzing(true)\<close>,
  \<^verbatim>\<open>setError(null)\<close> and the call of the API with the allocations and 30 days. The second
  component is the body of the request, \<open>None\<close> when none is sent.

  The total is a sum of doubles in the code and a sum of reals here. The two can disagree
  on the second check when the total lies within rounding of the tolerance (the code rejects
  0.1 and 99.8, whose sum as doubles is below 99.9); the first check, on the number of
  assets, does not depend on it.
\<close>

definition analyzePortfolio :: "analyzer_state \<Rightarrow> analyzer_state \<times> jsval option" where
  "analyzePortfolio st =
     (if length (portfolio st) < 2
        then (st\<lparr>error := Some ''Please add at least 2 assets to analyze''\<rparr>, None)
      else if \<bar>getTotalAllocation st - 100\<bar> > 0.1
        then (st\<lparr>error := Some ''Total allocation must equal 100%''\<rparr>, None)
      else (st\<lparr>isAnalyzing := True, error := None\<rparr>,
            Some (request_body
                    (map (\<lambda>asset. (pa_id asset, pa_allocation asset)) (portfolio st)) 30)))"

section \<open>The recomputation of the metrics in the component\<close>

text \<open>
  The explanation dialog of the component (\<^verbatim>\<open>generatePersonalizedCalculation\<close>) computes
  the expected return and the volatility again from \<^verbatim>\<open>analytics.historicalReturns\<close>.
  These are the formulas of the repository for the two metrics that are among the sources.

  A division by 0 gives NaN or an infinity in JavaScript and 0 in HOL, so the quotient is
  an option: \<open>None\<close> is a result that is no finite number.
\<close>

definition js_div :: "real \<Rightarrow> real \<Rightarrow> real option" where
  "js_div a b = (if b = 0 then None else Some (a / b))"

text \<open>\<^verbatim>\<open>historicalReturns.reduce((sum, ret) => sum + ret, 0) / historicalReturns.length\<close>\<close>

definition avgDailyReturn :: "real list \<Rightarrow> real option" where
  "avgDailyReturn historicalReturns =
     js_div (foldl (\<lambda>sum ret. sum + ret) 0 historicalReturns) (real (length historicalReturns))"

text \<open>\<^verbatim>\<open>avgDailyReturn * 252\<close>\<close>

definition annualizedReturn :: "real list \<Rightarrow> real option" where
  "annualizedReturn historicalReturns =
     map_option (\<lambda>avg. avg * 252) (avgDailyReturn historicalReturns)"

text \<open>
  \<^verbatim>\<open>historicalReturns.reduce((sum, ret) => sum + Math.pow(ret - avgReturn, 2), 0) /
  historicalReturns.length\<close>, where \<^verbatim>\<open>avgReturn\<close> is the average above.
\<close>

definition variance :: "real list \<Rightarrow> real option" where
  "variance historicalReturns =
     (case avgDailyReturn historicalReturns of
        None \<Rightarrow> None
      | Some avgReturn \<Rightarrow>
          js_div (foldl (\<lambda>sum ret. sum + (ret - avgReturn) ^ 2) 0 historicalReturns)
                 (real (length historicalReturns)))"

text \<open>\<^verbatim>\<open>Math.sqrt(variance)\<close> and \<^verbatim>\<open>dailyVol * Math.sqrt(252)\<close>\<close>

definition dailyVol :: "real list \<Rightarrow> real option" where
  "dailyVol historicalReturns = map_option sqrt (variance historicalReturns)"

definition annualizedVol :: "real list \<Rightarrow> real option" where
  "annualizedVol historicalReturns =
     map_option (\<lambda>d. d * sqrt 252) (dailyVol historicalReturns)"

subsection \<open>The same metrics in the words of the specification\<close>

text \<open>
  The mean of a return series, and its population variance: the mean of the squared
  deviations from the mean, with divisor \<open>N\<close>. The code is compared with these.
\<close>

definition spec_avgDaily :: "real list \<Rightarrow> real" where
  "spec_avgDaily returns = sum_list returns / real (length returns)"

definition spec_variance :: "real list \<Rightarrow> real" where
  "spec_variance returns =
     sum_list (map (\<lambda>r. (r - spec_avgDaily returns) ^ 2) returns) / real (length returns)"

section \<open>The engine, as the specification describes it\<close>

text \<open>
  The service \<^verbatim>\<open>backend/src/services/crypto.service.ts\<close>, which holds the engine behind
  \<^verbatim>\<open>analyzePortfolio\<close>, is not among the sources. The definitions of this section are
  written from the specification; each says which component it stands for.
\<close>

datatype engine_error =
    InvalidPortfolioError
  | PriceResolutionError
  | DegenerateSeriesError
  | MisalignedSeriesError
  | InsufficientDataError

subsection \<open>Risk and performance metrics\<close>

text \<open>
  \<open>sharpeRatio\<close> is the one metric whose formula divides by a value that can be 0; as in
  \<open>js_div\<close>, \<open>None\<close> stands for the NaN or infinity that such a division gives.
\<close>

record RiskMetrics =
  expectedReturn :: real
  volatility :: real
  maxDrawdown :: real
  sharpeRatio :: "real option"

definition riskFreeRate :: real where
  "riskFreeRate = 0.02"

text \<open>
  Modelled from the spec: the maximum drawdown of the Metrics Calculator (section 4.3), which
  is missing from the sources. The cumulative value starts at 1 and is multiplied by
  \<open>1 + r\<close> for each return in order; the running peak is tracked; the result is the largest
  \<open>(peak - value) / peak\<close>, clamped to the interval from 0 to 1. \<open>drawdown_scan\<close> takes the
  current value, the running peak and the largest drawdown so far.
\<close>

fun drawdown_scan :: "real \<Rightarrow> real \<Rightarrow> real \<Rightarrow> real list \<Rightarrow> real" where
  "drawdown_scan v peak worst [] = worst"
| "drawdown_scan v peak worst (r # rs) =
     (let v' = v * (1 + r);
          peak' = max peak v';
          dd = (peak' - v') / peak'
      in drawdown_scan v' peak' (max worst dd) rs)"

definition clamp01 :: "real \<Rightarrow> real" where
  "clamp01 x = max 0 (min 1 x)"

definition spec_maxDrawdown :: "real list \<Rightarrow> real" where
  "spec_maxDrawdown returns = clamp01 (drawdown_scan 1 1 0 returns)"

text \<open>
  Modelled from the spec: \<open>compute\<close> of the Metrics Calculator (section 4.3), which is
  missing from the sources. It needs at least 2 returns and fails with
  \<open>InsufficientDataError\<close> otherwise; the expected return is the mean times 252, the
  volatility the square root of the population variance times the square root of 252, the
  Sharpe ratio the excess over the risk-free rate of 2 percent divided by the volatility,
  and 0 when the volatility is 0.
\<close>

definition compute :: "real list \<Rightarrow> engine_error + RiskMetrics" where
  "compute returns =
     (if length returns < 2 then Inl InsufficientDataError
      else
        let avgDaily = spec_avgDaily returns;
            expected = avgDaily * 252;
            vol = sqrt (spec_variance returns) * sqrt 252
        in Inr \<lparr>expectedReturn = expected,
                volatility = vol,
                maxDrawdown = spec_maxDrawdown returns,
                sharpeRatio = (if vol = 0 then Some 0 else js_div (expected - riskFreeRate) vol)\<rparr>)"

subsection \<open>Price series\<close>

text \<open>
  Modelled from the spec: \<open>synthesize\<close> of the Price-Series Synthesizer (section 4.1), which
  is missing from the sources. The generator is a parameter: \<open>gauss seed k\<close> is its \<open>k\<close>-th
  draw for a seed, and the drift and the daily volatility are the two constants that the
  specification leaves open. The log return of day \<open>k\<close> is \<open>drift + dailyVolatility * gauss
  seed k\<close>. The cumulative log return of day \<open>t\<close> is minus the sum of the log returns of the
  days after \<open>t\<close>, so that it is 0 on the last day, and the price of day \<open>t\<close> is the current
  price times its exponential. A window of 0 days is rejected.
\<close>

type_synonym PriceSeries = "(int \<times> real) list"

definition cumulativeLogReturn :: "(nat \<Rightarrow> real) \<Rightarrow> nat \<Rightarrow> nat \<Rightarrow> real" where
  "cumulativeLogReturn logReturn windowDays t = - sum_list (map logReturn [t..<windowDays])"

definition synthesize ::
  "('seed \<Rightarrow> nat \<Rightarrow> real) \<Rightarrow> real \<Rightarrow> real \<Rightarrow> string \<Rightarrow> real \<Rightarrow> int \<Rightarrow> 'seed
     \<Rightarrow> engine_error + PriceSeries" where
  "synthesize gauss drift dailyVolatility assetId currentPrice windowDays seedMaterial =
     (if windowDays < 1 then Inl InsufficientDataError
      else
        let n = nat windowDays;
            logReturn = (\<lambda>k. drift + dailyVolatility * gauss seedMaterial k)
        in Inr (map (\<lambda>t. (int t, currentPrice * exp (cumulativeLogReturn logReturn n t)))
                    [0..<n + 1]))"

section \<open>Example requests and states\<close>

text \<open>A request for 60 percent bitcoin and 40 percent ethereum over 30 days, and one whose
  first asset has no id and whose second has a string for its allocation.\<close>

definition example_body :: jsval where
  "example_body = request_body [(''bitcoin'', 60), (''ethereum'', 40)] 30"

definition example_bad_body :: jsval where
  "example_bad_body =
     JObj [(''assets'',
            JArr [JObj [(''allocation'', JNum 60)],
                  JObj [(''id'', JStr ''ethereum''), (''allocation'', JStr ''40'')]])]"

text \<open>A service for the examples: it returns the allocations and the days it is called
  with.\<close>

definition echo_engine ::
  "engine_asset list \<Rightarrow> jsval \<Rightarrow> (real list \<times> jsval) option" where
  "echo_engine portfolioAssets days = Some (map ea_allocation portfolioAssets, days)"

text \<open>A state of the component with a single asset.\<close>

definition single_asset_state :: analyzer_state where
  "single_asset_state =
     initial_state\<lparr>portfolio :=
       [\<lparr>pa_id = ''bitcoin'', pa_symbol = ''BTC'', pa_name = ''Bitcoin'', pa_allocation = 100,
         pa_currentPrice = None\<rparr>]\<rparr>"

text \<open>A generator for the examples: it alternates between 1 and -1.\<close>

definition toy_gauss :: "nat \<Rightarrow> nat \<Rightarrow> real" where
  "toy_gauss seed k = (if even (seed + k) then 1 else - 1)"

section \<open>Properties of the route\<close>

text \<open>The loop passes exactly the lists in which every asset has a truthy id and a numeric
  allocation.\<close>

lemma validate_passed_iff:
  "validate_assets xs = Passed \<longleftrightarrow> (\<forall>a\<in>set xs. has_id a \<and> numeric_allocation a \<noteq> None)"
proof (induction xs)
  case Nil
  show ?case by simp
next
  case (Cons x xs)
  show ?case
  proof (cases "get_prop x ''id''")
    case None
    then show ?thesis by (simp add: has_id_def)
  next
    case (Some i)
    note id = this
    show ?thesis
    proof (cases "get_prop x ''allocation''")
      case None
      with id show ?thesis by (simp add: has_id_def numeric_allocation_def)
    next
      case (Some a)
      with id Cons.IH show ?thesis
        by (cases a) (simp_all add: has_id_def numeric_allocation_def)
    qed
  qed
qed

text \<open>After the loop has passed, the map meets no asset it cannot convert.\<close>

lemma convert_after_validation:
  "validate_assets xs = Passed \<Longrightarrow> \<exists>es. convert_assets xs = Some es"
proof (induction xs)
  case Nil
  show ?case by simp
next
  case (Cons x xs)
  from Cons.prems obtain i a where
    "get_prop x ''id'' = Some i" "get_prop x ''allocation'' = Some (JNum a)"
    and rest: "validate_assets xs = Passed"
    by (auto split: option.splits if_splits elim: is_number.elims)
  moreover from Cons.IH [OF rest] obtain es where "convert_assets xs = Some es" ..
  ultimately show ?case by simp
qed

lemma convert_assets_fractions:
  "convert_assets xs = Some es \<Longrightarrow>
     \<exists>as. map numeric_allocation xs = map Some as \<and>
          map ea_allocation es = map (\<lambda>a. a / 100) as \<and>
          map (\<lambda>x. get_prop x ''id'') xs = map (\<lambda>e. Some (ea_id e)) es"
proof (induction xs arbitrary: es)
  case Nil
  then show ?case by simp
next
  case (Cons x xs)
  from Cons.prems obtain e es' where e: "convert_asset x = Some e"
    and es': "convert_assets xs = Some es'" and es: "es = e # es'"
    by (auto split: option.splits)
  from e obtain i a where "get_prop x ''id'' = Some i" "get_prop x ''allocation'' = Some (JNum a)"
    "e = \<lparr>ea_id = i, ea_allocation = a / 100\<rparr>"
    by (auto split: option.splits jsval.splits)
  moreover from Cons.IH [OF es'] obtain as where
    "map numeric_allocation xs = map Some as"
    "map ea_allocation es' = map (\<lambda>a. a / 100) as"
    "map (\<lambda>x. get_prop x ''id'') xs = map (\<lambda>e. Some (ea_id e)) es'"
    by blast
  ultimately have "map numeric_allocation (x # xs) = map Some (a # as) \<and>
          map ea_allocation es = map (\<lambda>a. a / 100) (a # as) \<and>
          map (\<lambda>x. get_prop x ''id'') (x # xs) = map (\<lambda>e. Some (ea_id e)) es"
    using es by (simp add: numeric_allocation_def)
  then show ?case by blast
qed

lemma sum_list_fractions: "sum_list (map (\<lambda>a. a / 100) as) = sum_list as / (100::real)"
  by (induction as) (simp_all add: add_divide_distrib)

lemma read_body_assets:
  "get_prop body ''assets'' = Some assets \<Longrightarrow> \<exists>days. read_body body = Some (assets, days)"
  by (cases body) (simp_all add: read_body_def)

lemma read_body_assets_conv:
  "read_body body = Some (assets, days) \<Longrightarrow> get_prop body ''assets'' = Some assets"
  by (auto simp: read_body_def split: option.splits)

lemma route_validate_call:
  assumes "route_validate body = CallEngine es days"
  shows "\<exists>xs. get_prop body ''assets'' = Some (JArr xs) \<and> 2 \<le> length xs \<and>
              validate_assets xs = Passed \<and> convert_assets xs = Some es"
  using assms
  by (auto simp: route_validate_def dest: read_body_assets_conv
           split: option.splits jsval.splits if_splits loop_outcome.splits)

lemma route_validate_rejects:
  assumes "get_prop body ''assets'' = Some (JArr xs)" and "validate_assets xs \<noteq> Passed"
  shows "\<exists>r. route_validate body = Respond r \<and> \<not> success r \<and> status r \<in> {400, 500}"
proof -
  from read_body_assets [OF assms(1)] obtain days where "read_body body = Some (JArr xs, days)" ..
  with assms(2) show ?thesis
    by (cases "validate_assets xs")
       (simp_all add: route_validate_def too_few_assets_def malformed_asset_def analysis_failed_def)
qed

text \<open>What the service is called with for \<^verbatim>\<open>days\<close>: the value of the request, or 30 when
  the request has none.\<close>

lemma read_body_days:
  "read_body body = Some (assets, days) \<Longrightarrow>
     \<exists>d. get_prop body ''days'' = Some d \<and> days = (if d = JUndefined then JNum 30 else d)"
  unfolding read_body_def
  by (cases "get_prop body ''assets''"; cases "get_prop body ''days''") auto

lemma route_validate_call_days:
  assumes "route_validate body = CallEngine es days"
  shows "\<exists>d. get_prop body ''days'' = Some d \<and> days = (if d = JUndefined then JNum 30 else d)"
proof (cases "read_body body")
  case None
  with assms show ?thesis by (simp add: route_validate_def)
next
  case (Some p)
  obtain assets days' where p: "p = (assets, days')" by (cases p)
  with Some assms have "days' = days"
    by (simp add: route_validate_def
             split: jsval.splits if_splits loop_outcome.splits option.splits)
  with Some p have "read_body body = Some (assets, days)" by simp
  then show ?thesis by (rule read_body_days)
qed

text \<open>
  \<^bold>\<open>C10.\<close> For every request that passes the validation of the route, the handler calls
  the service with a portfolio that has, asset by asset, the id of the request and the
  allocation of the request divided by 100 (so percentages that sum to 100 arrive as
  fractions that sum to 1), and with the days of the request: whatever the service is, the
  response of the handler is what the service makes of exactly this portfolio, status 200
  with its result, or status 500 when it fails. And a request in which some asset has no id
  (or a falsy one) or an allocation that is not a number is answered by the route itself,
  unsuccessfully with status 400 or 500, whatever the service would do: the service is not
  called. The requests that pass are those with at least 2 assets, each with an id and a
  numeric allocation.
\<close>

theorem route_forwards_fractions:
  "(\<forall>es days. route_validate body = (CallEngine es days :: 'a handler_step) \<longrightarrow>
      (\<exists>xs as d. get_prop body ''assets'' = Some (JArr xs) \<and>
         map numeric_allocation xs = map Some as \<and>
         map ea_allocation es = map (\<lambda>a. a / 100) as \<and>
         map (\<lambda>x. get_prop x ''id'') xs = map (\<lambda>e. Some (ea_id e)) es \<and>
         sum_list (map ea_allocation es) = sum_list as / 100 \<and>
         get_prop body ''days'' = Some d \<and> days = (if d = JUndefined then JNum 30 else d)) \<and>
      (\<forall>engine :: engine_asset list \<Rightarrow> jsval \<Rightarrow> 'a option.
         portfolio_analyze_route engine body =
           (case engine es days of
              None \<Rightarrow> analysis_failed
            | Some analysis \<Rightarrow> HttpResponse 200 True (Some analysis) None))) \<and>
   (\<forall>xs. get_prop body ''assets'' = Some (JArr xs) \<and>
         (\<exists>asset\<in>set xs. \<not> has_id asset \<or> numeric_allocation asset = None) \<longrightarrow>
      (\<exists>r::'a http_response. route_validate body = Respond r \<and> \<not> success r \<and>
           status r \<in> {400, 500} \<and> (\<forall>engine. portfolio_analyze_route engine body = r))) \<and>
   (\<forall>xs. get_prop body ''assets'' = Some (JArr xs) \<and> 2 \<le> length xs \<and>
         (\<forall>asset\<in>set xs. has_id asset \<and> numeric_allocation asset \<noteq> None) \<longrightarrow>
      (\<exists>es days. route_validate body = (CallEngine es days :: 'a handler_step)))"
proof (intro conjI allI impI)
  fix es days
  assume call: "route_validate body = (CallEngine es days :: 'a handler_step)"
  from route_validate_call [OF call] obtain xs where
    xs: "get_prop body ''assets'' = Some (JArr xs)" and conv: "convert_assets xs = Some es"
    by blast
  from convert_assets_fractions [OF conv] obtain as where
    as: "map numeric_allocation xs = map Some as"
        "map ea_allocation es = map (\<lambda>a. a / 100) as"
        "map (\<lambda>x. get_prop x ''id'') xs = map (\<lambda>e. Some (ea_id e)) es"
    by blast
  from route_validate_call_days [OF call] obtain d where
    d: "get_prop body ''days'' = Some d" "days = (if d = JUndefined then JNum 30 else d)"
    by blast
  have total: "sum_list (map ea_allocation es) = sum_list as / 100"
    by (simp add: as(2) sum_list_fractions)
  have "get_prop body ''assets'' = Some (JArr xs) \<and>
         map numeric_allocation xs = map Some as \<and>
         map ea_allocation es = map (\<lambda>a. a / 100) as \<and>
         map (\<lambda>x. get_prop x ''id'') xs = map (\<lambda>e. Some (ea_id e)) es \<and>
         sum_list (map ea_allocation es) = sum_list as / 100 \<and>
         get_prop body ''days'' = Some d \<and> days = (if d = JUndefined then JNum 30 else d)"
    by (rule conjI [OF xs conjI [OF as(1) conjI [OF as(2) conjI [OF as(3)
          conjI [OF total conjI [OF d(1) d(2)]]]]]])
  then show "\<exists>xs as d. get_prop body ''assets'' = Some (JArr xs) \<and>
         map numeric_allocation xs = map Some as \<and>
         map ea_allocation es = map (\<lambda>a. a / 100) as \<and>
         map (\<lambda>x. get_prop x ''id'') xs = map (\<lambda>e. Some (ea_id e)) es \<and>
         sum_list (map ea_allocation es) = sum_list as / 100 \<and>
         get_prop body ''days'' = Some d \<and> days = (if d = JUndefined then JNum 30 else d)"
    by (rule_tac x = xs in exI, rule_tac x = as in exI, rule_tac x = d in exI)
  fix engine :: "engine_asset list \<Rightarrow> jsval \<Rightarrow> 'a option"
  from call show "portfolio_analyze_route engine body =
      (case engine es days of
         None \<Rightarrow> analysis_failed
       | Some analysis \<Rightarrow> HttpResponse 200 True (Some analysis) None)"
    by (simp add: portfolio_analyze_route_def)
next
  fix xs
  assume a: "get_prop body ''assets'' = Some (JArr xs) \<and>
         (\<exists>asset\<in>set xs. \<not> has_id asset \<or> numeric_allocation asset = None)"
  then have "validate_assets xs \<noteq> Passed"
    by (auto simp: validate_passed_iff)
  with a have "\<exists>r::'a http_response. route_validate body = Respond r \<and> \<not> success r \<and>
      status r \<in> {400, 500}"
    by (intro route_validate_rejects) simp_all
  then obtain r :: "'a http_response" where
    r: "route_validate body = Respond r" "\<not> success r" "status r \<in> {400, 500}"
    by blast
  then have "\<forall>engine. portfolio_analyze_route engine body = r"
    by (simp add: portfolio_analyze_route_def)
  with r show "\<exists>r::'a http_response. route_validate body = Respond r \<and> \<not> success r \<and>
      status r \<in> {400, 500} \<and> (\<forall>engine. portfolio_analyze_route engine body = r)"
    by blast
next
  fix xs
  assume a: "get_prop body ''assets'' = Some (JArr xs) \<and> 2 \<le> length xs \<and>
         (\<forall>asset\<in>set xs. has_id asset \<and> numeric_allocation asset \<noteq> None)"
  then have passed: "validate_assets xs = Passed"
    by (simp add: validate_passed_iff)
  from convert_after_validation [OF this] obtain es where es: "convert_assets xs = Some es" ..
  from a read_body_assets [of body "JArr xs"] obtain days
    where "read_body body = Some (JArr xs, days)" by blast
  with a passed es have "route_validate body = (CallEngine es days :: 'a handler_step)"
    by (simp add: route_validate_def)
  then show "\<exists>es days. route_validate body = (CallEngine es days :: 'a handler_step)"
    by (rule_tac x = es in exI, rule_tac x = days in exI)
qed

theorem route_forwards_fractions_witness:
  "route_validate example_body =
     (CallEngine [\<lparr>ea_id = JStr ''bitcoin'', ea_allocation = 60 / 100\<rparr>,
                  \<lparr>ea_id = JStr ''ethereum'', ea_allocation = 40 / 100\<rparr>] (JNum 30)
        :: (real list \<times> jsval) handler_step) \<and>
   portfolio_analyze_route echo_engine example_body =
     HttpResponse 200 True (Some ([60 / 100, 40 / 100], JNum 30)) None \<and>
   (\<exists>xs as. get_prop example_body ''assets'' = Some (JArr xs) \<and>
      map numeric_allocation xs = map Some as \<and>
      map (\<lambda>a. a / 100) as = [60 / 100, 40 / 100]) \<and>
   (\<exists>r::(real list \<times> jsval) http_response.
      route_validate example_bad_body = Respond r \<and> \<not> success r \<and>
      portfolio_analyze_route echo_engine example_bad_body = r) \<and>
   (\<exists>es days. route_validate example_body =
      (CallEngine es days :: (real list \<times> jsval) handler_step))"
proof -
  let ?es = "[\<lparr>ea_id = JStr ''bitcoin'', ea_allocation = 60 / 100\<rparr>,
              \<lparr>ea_id = JStr ''ethereum'', ea_allocation = 40 / 100\<rparr>]"
  have call: "route_validate example_body =
      (CallEngine ?es (JNum 30) :: (real list \<times> jsval) handler_step)"
    by (simp add: example_body_def request_body_def route_validate_def read_body_def)
  note fwd = route_forwards_fractions [of example_body, where ?'a = "real list \<times> jsval",
      THEN conjunct1, rule_format, OF call]
  from fwd [THEN conjunct1]
  obtain xs as where a: "get_prop example_body ''assets'' = Some (JArr xs)"
      "map numeric_allocation xs = map Some as"
      "map ea_allocation ?es = map (\<lambda>a. a / 100) as"
    by (elim exE conjE)
  have "map (\<lambda>a. a / 100) as = [60 / 100, 40 / 100]"
    using a(3) [symmetric] by simp
  with a(1,2) have "get_prop example_body ''assets'' = Some (JArr xs) \<and>
      map numeric_allocation xs = map Some as \<and>
      map (\<lambda>a. a / 100) as = [60 / 100, 40 / 100]"
    by simp
  then have req: "\<exists>xs as. get_prop example_body ''assets'' = Some (JArr xs) \<and>
      map numeric_allocation xs = map Some as \<and>
      map (\<lambda>a. a / 100) as = [60 / 100, 40 / 100]"
    by (rule_tac x = xs in exI, rule_tac x = as in exI)
  from fwd [THEN conjunct2, rule_format, of echo_engine]
  have resp: "portfolio_analyze_route echo_engine example_body =
      HttpResponse 200 True (Some ([60 / 100, 40 / 100], JNum 30)) None"
    by (simp add: echo_engine_def)
  have bad: "get_prop example_bad_body ''assets'' =
      Some (JArr [JObj [(''allocation'', JNum 60)],
                  JObj [(''id'', JStr ''ethereum''), (''allocation'', JStr ''40'')]]) \<and>
      (\<exists>asset\<in>set [JObj [(''allocation'', JNum 60)],
                  JObj [(''id'', JStr ''ethereum''), (''allocation'', JStr ''40'')]].
          \<not> has_id asset \<or> numeric_allocation asset = None)"
    by (simp add: example_bad_body_def has_id_def)
  from route_forwards_fractions [of example_bad_body, where ?'a = "real list \<times> jsval",
      THEN conjunct2, THEN conjunct1, rule_format, OF bad]
  have rej: "\<exists>r::(real list \<times> jsval) http_response.
      route_validate example_bad_body = Respond r \<and> \<not> success r \<and>
      portfolio_analyze_route echo_engine example_bad_body = r"
    by blast
  let ?xs = "[JObj [(''id'', JStr ''bitcoin''), (''allocation'', JNum 60)],
              JObj [(''id'', JStr ''ethereum''), (''allocation'', JNum 40)]]"
  have good: "get_prop example_body ''assets'' = Some (JArr ?xs) \<and> 2 \<le> length ?xs \<and>
      (\<forall>asset\<in>set ?xs. has_id asset \<and> numeric_allocation asset \<noteq> None)"
    by (simp add: example_body_def request_body_def has_id_def numeric_allocation_def)
  from route_forwards_fractions [of example_body, where ?'a = "real list \<times> jsval",
      THEN conjunct2, THEN conjunct2, rule_format, OF good]
  have pass: "\<exists>es days. route_validate example_body =
      (CallEngine es days :: (real list \<times> jsval) handler_step)" .
  show ?thesis by (rule conjI [OF call conjI [OF resp conjI [OF req conjI [OF rej pass]]]])
qed

text \<open>
  The route does not check \<^verbatim>\<open>days\<close>: a request for a window of 0 days passes its
  validation and reaches the service with 0 days.
\<close>

lemma route_forwards_zero_days:
  "route_validate (request_body [(''bitcoin'', 60), (''ethereum'', 40)] 0) =
     (CallEngine [\<lparr>ea_id = JStr ''bitcoin'', ea_allocation = 60 / 100\<rparr>,
                  \<lparr>ea_id = JStr ''ethereum'', ea_allocation = 40 / 100\<rparr>] (JNum 0)
        :: 'a handler_step)"
  by (simp add: request_body_def route_validate_def read_body_def)

text \<open>
  Nor does the route check the sum or the range of the weights: requests with the weights
  0.5 and 0.4, and with the weights 1.5 and -0.5, pass its validation and reach the service
  with these weights.
\<close>

lemma route_forwards_unbalanced_weights:
  "route_validate (request_body [(''bitcoin'', 50), (''ethereum'', 40)] 30) =
     (CallEngine [\<lparr>ea_id = JStr ''bitcoin'', ea_allocation = 50 / 100\<rparr>,
                  \<lparr>ea_id = JStr ''ethereum'', ea_allocation = 40 / 100\<rparr>] (JNum 30)
        :: 'a handler_step) \<and>
   route_validate (request_body [(''bitcoin'', 150), (''ethereum'', - 50)] 30) =
     (CallEngine [\<lparr>ea_id = JStr ''bitcoin'', ea_allocation = 150 / 100\<rparr>,
                  \<lparr>ea_id = JStr ''ethereum'', ea_allocation = - 50 / 100\<rparr>] (JNum 30)
        :: 'a handler_step)"
  by (simp add: request_body_def route_validate_def read_body_def)

section \<open>Portfolios of fewer than two assets\<close>

text \<open>
  \<^bold>\<open>C4.\<close> A portfolio of fewer than 2 assets is rejected. The route answers a request
  whose \<^verbatim>\<open>assets\<close> array has fewer than 2 elements with status 400 (a client error) and
  \<^verbatim>\<open>success: false\<close>, at once and whatever the service is: the service is not called and
  nothing is tried again. The component, for its part, sets its error message and sends no
  request when its portfolio has fewer than 2 assets.
\<close>

theorem fewer_than_two_assets_rejected:
  "(\<forall>xs. get_prop body ''assets'' = Some (JArr xs) \<and> length xs < 2 \<longrightarrow>
      route_validate body = (Respond too_few_assets :: 'a handler_step) \<and>
      (\<forall>engine. portfolio_analyze_route engine body = (too_few_assets :: 'a http_response)) \<and>
      status (too_few_assets :: 'a http_response) = 400 \<and>
      \<not> success (too_few_assets :: 'a http_response)) \<and>
   (length (portfolio st) < 2 \<longrightarrow>
      analyzePortfolio st = (st\<lparr>error := Some ''Please add at least 2 assets to analyze''\<rparr>, None))"
proof (intro conjI allI impI)
  fix xs
  assume a: "get_prop body ''assets'' = Some (JArr xs) \<and> length xs < 2"
  from read_body_assets [OF conjunct1 [OF a]] obtain days
    where "read_body body = Some (JArr xs, days)" ..
  with a show v: "route_validate body = (Respond too_few_assets :: 'a handler_step)"
    by (simp add: route_validate_def)
  show "status (too_few_assets :: 'a http_response) = 400"
    by (simp add: too_few_assets_def)
  show "\<not> success (too_few_assets :: 'a http_response)"
    by (simp add: too_few_assets_def)
  fix engine :: "engine_asset list \<Rightarrow> jsval \<Rightarrow> 'a option"
  show "portfolio_analyze_route engine body = too_few_assets"
    by (simp add: portfolio_analyze_route_def v)
next
  assume "length (portfolio st) < 2"
  then show "analyzePortfolio st =
      (st\<lparr>error := Some ''Please add at least 2 assets to analyze''\<rparr>, None)"
    by (simp add: analyzePortfolio_def)
qed

theorem fewer_than_two_assets_rejected_witness:
  "get_prop (request_body [(''bitcoin'', 100)] 30) ''assets'' =
     Some (JArr [JObj [(''id'', JStr ''bitcoin''), (''allocation'', JNum 100)]]) \<and>
   portfolio_analyze_route (\<lambda>assets days. Some ()) (request_body [(''bitcoin'', 100)] 30) =
     HttpResponse 400 False None (Some ''Portfolio must contain at least 2 assets'') \<and>
   length (portfolio single_asset_state) = 1 \<and>
   snd (analyzePortfolio single_asset_state) = None \<and>
   error (fst (analyzePortfolio single_asset_state)) =
     Some ''Please add at least 2 assets to analyze''"
proof -
  let ?body = "request_body [(''bitcoin'', 100)] 30"
  let ?xs = "[JObj [(''id'', JStr ''bitcoin''), (''allocation'', JNum 100)]]"
  have assets: "get_prop ?body ''assets'' = Some (JArr ?xs)"
    by (simp add: request_body_def)
  then have pre: "get_prop ?body ''assets'' = Some (JArr ?xs) \<and> length ?xs < 2"
    by simp
  have len: "length (portfolio single_asset_state) = 1"
    by (simp add: single_asset_state_def initial_state_def)
  then have short: "length (portfolio single_asset_state) < 2"
    by simp
  note inst = fewer_than_two_assets_rejected [of ?body single_asset_state, where ?'a = unit]
  from inst [THEN conjunct1, rule_format, OF pre]
  have route: "portfolio_analyze_route (\<lambda>assets days. Some ()) ?body =
      HttpResponse 400 False None (Some ''Portfolio must contain at least 2 assets'')"
    by (simp add: too_few_assets_def)
  from inst [THEN conjunct2, rule_format, OF short]
  have ui: "snd (analyzePortfolio single_asset_state) = None"
    "error (fst (analyzePortfolio single_asset_state)) =
       Some ''Please add at least 2 assets to analyze''"
    by simp_all
  from assets route len ui show ?thesis by simp
qed

section \<open>Properties of the recomputed metrics\<close>

text \<open>The two folds of the code are the sums of the specification.\<close>

lemma foldl_plus_sum_list:
  "foldl (\<lambda>sum x. sum + f x) a xs = a + sum_list (map f xs)" for a :: real
  by (induction xs arbitrary: a) simp_all

lemma avgDailyReturn_spec:
  "returns \<noteq> [] \<Longrightarrow> avgDailyReturn returns = Some (spec_avgDaily returns)"
  using foldl_plus_sum_list [of "\<lambda>r. r" 0 returns]
  by (simp add: avgDailyReturn_def js_div_def spec_avgDaily_def)

lemma variance_spec:
  "returns \<noteq> [] \<Longrightarrow> variance returns = Some (spec_variance returns)"
  by (simp add: variance_def avgDailyReturn_spec js_div_def spec_variance_def foldl_plus_sum_list)

text \<open>
  \<^bold>\<open>C7.\<close> For every return series of at least 2 returns, the expected return that the
  code computes is the mean daily return times 252, and the volatility it computes is the
  square root of the population variance (the mean of the squared deviations, with divisor
  \<open>N\<close>) times the square root of 252.
\<close>

theorem metrics_recomputed_as_specified:
  assumes "2 \<le> length returns"
  shows "annualizedReturn returns = Some (spec_avgDaily returns * 252) \<and>
         annualizedVol returns = Some (sqrt (spec_variance returns) * sqrt 252)"
proof -
  from assms have "returns \<noteq> []" by auto
  then show ?thesis
    by (simp add: annualizedReturn_def annualizedVol_def dailyVol_def avgDailyReturn_spec
                  variance_spec)
qed

theorem metrics_recomputed_as_specified_witness:
  "2 \<le> length [1 / 100, 3 / 100 :: real] \<and>
   annualizedReturn [1 / 100, 3 / 100] = Some (2 / 100 * 252) \<and>
   annualizedVol [1 / 100, 3 / 100] = Some (1 / 100 * sqrt 252)"
proof -
  have len: "2 \<le> length [1 / 100, 3 / 100 :: real]" by simp
  have avg: "spec_avgDaily [1 / 100, 3 / 100] = 2 / 100"
    by (simp add: spec_avgDaily_def)
  have "spec_variance [1 / 100, 3 / 100] = (1 / 100) ^ 2"
    by (simp add: spec_variance_def avg power2_eq_square)
  then have root: "sqrt (spec_variance [1 / 100, 3 / 100]) = 1 / 100"
    by (simp only: real_sqrt_abs) 
  from metrics_recomputed_as_specified [OF len] len show ?thesis
    by (simp only: avg root) 
qed

section \<open>Properties of the metrics as specified\<close>

text \<open>
  \<^bold>\<open>C6.\<close> For every return series of at least 2 returns, \<open>compute\<close> returns metrics
  whose Sharpe ratio is a finite number (the division by the volatility is guarded); and
  when the variance of the series is 0, as it is when all returns are 0, the volatility is 0
  and the Sharpe ratio is 0.
\<close>

theorem sharpe_ratio_guarded:
  assumes "2 \<le> length returns"
  shows "\<exists>m. compute returns = Inr m \<and> sharpeRatio m \<noteq> None \<and>
             (spec_variance returns = 0 \<longrightarrow> volatility m = 0 \<and> sharpeRatio m = Some 0)"
  using assms by (simp add: compute_def Let_def js_div_def)

text \<open>A flat series, all of whose returns are equal, has variance 0.\<close>

lemma spec_variance_constant:
  assumes "\<forall>r\<in>set returns. r = c"
  shows "spec_variance returns = 0"
proof (cases "returns = []")
  case True
  then show ?thesis by (simp add: spec_variance_def)
next
  case False
  from assms have eq: "returns = replicate (length returns) c"
    by (simp add: replicate_length_same)
  from False have n: "real (length returns) \<noteq> 0" by simp
  have "sum_list returns = real (length returns) * c"
    by (subst eq) (simp add: sum_list_replicate)
  with n have avg: "spec_avgDaily returns = c"
    by (simp add: spec_avgDaily_def)
  have same: "map (\<lambda>r. (r - c) ^ 2) returns = map (\<lambda>r. 0) returns"
    using assms by (intro map_cong) simp_all
  have "sum_list (map (\<lambda>r. (r - c) ^ 2) returns) = 0"
    unfolding same by simp
  then show ?thesis
    by (simp only: spec_variance_def avg)
qed

theorem sharpe_ratio_guarded_witness:
  "2 \<le> length [0, 0, 0 :: real] \<and>
   (\<exists>m. compute [0, 0, 0] = Inr m \<and> volatility m = 0 \<and> sharpeRatio m = Some 0)"
proof -
  have len: "2 \<le> length [0, 0, 0 :: real]" by simp
  have flat: "spec_variance [0, 0, 0] = 0"
    by (rule spec_variance_constant [of _ 0]) simp
  from sharpe_ratio_guarded [OF len] flat len show ?thesis
    by blast
qed

text \<open>
  The largest drawdown never falls below its starting value; and while no return is below
  \<open>-1\<close> the value stays non-negative, so no drawdown exceeds 1.
\<close>

lemma drawdown_scan_lower: "worst \<le> drawdown_scan v peak worst rs"
proof (induction rs arbitrary: v peak worst)
  case Nil
  show ?case by simp
next
  case (Cons r rs)
  have "worst \<le> max worst ((max peak (v * (1 + r)) - v * (1 + r)) / max peak (v * (1 + r)))"
    by simp
  also have "\<dots> \<le> drawdown_scan (v * (1 + r)) (max peak (v * (1 + r)))
      (max worst ((max peak (v * (1 + r)) - v * (1 + r)) / max peak (v * (1 + r)))) rs"
    by (rule Cons.IH)
  finally show ?case by (simp add: Let_def)
qed

lemma drawdown_scan_upper:
  assumes "0 < peak" and "0 \<le> v" and "worst \<le> 1" and "\<forall>r\<in>set rs. - 1 \<le> r"
  shows "drawdown_scan v peak worst rs \<le> 1"
  using assms
proof (induction rs arbitrary: v peak worst)
  case Nil
  then show ?case by simp
next
  case (Cons r rs)
  let ?v = "v * (1 + r)"
  let ?p = "max peak ?v"
  from Cons.prems have r: "0 \<le> 1 + r" by simp
  with Cons.prems have v: "0 \<le> ?v" by simp
  from Cons.prems have p: "0 < ?p" by (simp add: less_max_iff_disj)
  from v p have "(?p - ?v) / ?p \<le> 1" by (simp add: divide_le_eq)
  with Cons.prems have w: "max worst ((?p - ?v) / ?p) \<le> 1" by simp
  from Cons.prems have "\<forall>r\<in>set rs. - 1 \<le> r" by simp
  from Cons.IH [OF p v w this] show ?case by (simp add: Let_def)
qed

text \<open>
  \<^bold>\<open>C9.\<close> For every return series of at least 2 returns, the maximum drawdown that
  \<open>compute\<close> returns (the largest relative fall of the cumulative value below its running
  peak, clamped) lies between 0 and 1.
\<close>

theorem max_drawdown_in_unit_interval:
  assumes "2 \<le> length returns"
  shows "\<exists>m. compute returns = Inr m \<and> 0 \<le> maxDrawdown m \<and> maxDrawdown m \<le> 1"
  using assms by (simp add: compute_def Let_def spec_maxDrawdown_def clamp01_def)

text \<open>The clamp changes nothing unless some return is below \<open>-1\<close>.\<close>

lemma max_drawdown_unclamped:
  assumes "\<forall>r\<in>set returns. - 1 \<le> r"
  shows "spec_maxDrawdown returns = drawdown_scan 1 1 0 returns"
proof -
  have "0 \<le> drawdown_scan 1 1 0 returns" by (rule drawdown_scan_lower)
  moreover have "drawdown_scan 1 1 0 returns \<le> 1"
    by (rule drawdown_scan_upper) (use assms in simp_all)
  ultimately show ?thesis by (simp add: spec_maxDrawdown_def clamp01_def)
qed

theorem max_drawdown_in_unit_interval_witness:
  "2 \<le> length [1 / 10, - 1 / 2 :: real] \<and>
   (\<exists>m. compute [1 / 10, - 1 / 2] = Inr m \<and> maxDrawdown m = 1 / 2 \<and>
        0 \<le> maxDrawdown m \<and> maxDrawdown m \<le> 1)"
proof -
  have len: "2 \<le> length [1 / 10, - 1 / 2 :: real]" by simp
  from max_drawdown_in_unit_interval [OF len] obtain m where
    m: "compute [1 / 10, - 1 / 2] = Inr m" "0 \<le> maxDrawdown m" "maxDrawdown m \<le> 1"
    by blast
  have "spec_maxDrawdown [1 / 10, - 1 / 2] = 1 / 2"
    by (simp add: spec_maxDrawdown_def clamp01_def Let_def)
  with m(1) have "maxDrawdown m = 1 / 2"
    by (auto simp: compute_def Let_def)
  with m len show ?thesis by blast
qed

section \<open>Properties of the price series as specified\<close>

text \<open>The cumulative log return of the last day is 0.\<close>

lemma cumulativeLogReturn_last: "cumulativeLogReturn logReturn n n = 0"
  by (simp add: cumulativeLogReturn_def)

text \<open>
  \<^bold>\<open>C2.\<close> For every asset id, every current price above 0, every window of at least 1
  day and every seed (and whatever the generator, the drift and the daily volatility are),
  \<open>synthesize\<close> returns a price series of \<open>windowDays + 1\<close> points, all of whose prices
  are above 0 and whose last price is the current price exactly.
\<close>

theorem synthesized_series_anchored:
  assumes "0 < currentPrice" and "1 \<le> windowDays"
  shows "\<exists>series.
           synthesize gauss drift dailyVolatility assetId currentPrice windowDays seedMaterial
             = Inr series \<and>
           length series = nat windowDays + 1 \<and>
           (\<forall>point\<in>set series. 0 < snd point) \<and>
           snd (last series) = currentPrice"
proof -
  let ?n = "nat windowDays"
  let ?lr = "\<lambda>k. drift + dailyVolatility * gauss seedMaterial k"
  let ?series = "map (\<lambda>t. (int t, currentPrice * exp (cumulativeLogReturn ?lr ?n t))) [0..<?n + 1]"
  from assms(2) have run: "synthesize gauss drift dailyVolatility assetId currentPrice windowDays
      seedMaterial = Inr ?series"
    by (simp add: synthesize_def Let_def)
  have len: "length ?series = ?n + 1" by simp
  from assms(1) have pos: "\<forall>point\<in>set ?series. 0 < snd point"
    by auto
  have "last ?series = (int ?n, currentPrice * exp (cumulativeLogReturn ?lr ?n ?n))"
    by (simp add: last_map)
  then have anchor: "snd (last ?series) = currentPrice"
    by (simp add: cumulativeLogReturn_last)
  from run len pos anchor show ?thesis by blast
qed

theorem synthesized_series_anchored_witness:
  "(0::real) < 100 \<and> (1::int) \<le> 30 \<and>
   (\<exists>series. synthesize toy_gauss (1 / 1000) (3 / 100) ''bitcoin'' 100 30 (7::nat) = Inr series \<and>
      length series = 31 \<and> snd (last series) = 100)"
proof -
  have p: "(0::real) < 100" and w: "(1::int) \<le> 30" by simp_all
  from synthesized_series_anchored [OF p w, of toy_gauss "1 / 1000" "3 / 100" "''bitcoin''" 7]
  have "\<exists>series. synthesize toy_gauss (1 / 1000) (3 / 100) ''bitcoin'' 100 30 (7::nat) = Inr series \<and>
      length series = 31 \<and> snd (last series) = 100"
    by auto
  with p w show ?thesis by blast
qed

end
